theory Spec2Isabelle
  imports Main
begin

section \<open>BetterHosts: the hosts-file plugin of plugins/betterhosts\<close>

text \<open>
  A shallow embedding of the class \<^verbatim>\<open>BetterHosts\<close> of
  \<^verbatim>\<open>plugins/betterhosts/__init__.py\<close>. A Python \<^verbatim>\<open>str\<close> is a
  \<^typ>\<open>string\<close> whose characters are code points below 256. Logging has no effect on
  control flow or on the file and is left out.
\<close>

subsection \<open>Python string methods\<close>

abbreviation (input) TAB :: char where "TAB \<equiv> CHR 0x09"
abbreviation (input) LF :: char where "LF \<equiv> CHR 0x0A"
abbreviation (input) CR :: char where "CR \<equiv> CHR 0x0D"

text \<open>\<^verbatim>\<open>str.isspace\<close> on one character (the whitespace code points below 256).\<close>

definition py_isspace :: "char \<Rightarrow> bool" where
  "py_isspace c = (c \<in> set [CHR 0x09, CHR 0x0A, CHR 0x0B, CHR 0x0C, CHR 0x0D,
     CHR 0x1C, CHR 0x1D, CHR 0x1E, CHR 0x1F, CHR 0x20, CHR 0x85, CHR 0xA0])"

text \<open>\<^verbatim>\<open>s.strip()\<close>: whitespace removed at both ends.\<close>

definition py_strip :: "string \<Rightarrow> string" where
  "py_strip s = rev (dropWhile py_isspace (rev (dropWhile py_isspace s)))"

text \<open>
  \<^verbatim>\<open>s.split()\<close>: the maximal runs of non-whitespace characters, in order. The first
  argument of \<open>split_ws\<close> is the word read so far.
\<close>

fun split_ws :: "string \<Rightarrow> string \<Rightarrow> string list" where
  "split_ws w [] = (if w = [] then [] else [w])"
| "split_ws w (c # cs) =
     (if py_isspace c then (if w = [] then split_ws [] cs else w # split_ws [] cs)
      else split_ws (w @ [c]) cs)"

definition py_split :: "string \<Rightarrow> string list" where
  "py_split s = split_ws [] s"

text \<open>\<^verbatim>\<open>sep.join(xs)\<close>.\<close>

fun py_join :: "string \<Rightarrow> string list \<Rightarrow> string" where
  "py_join sep [] = []"
| "py_join sep [x] = x"
| "py_join sep (x # y # ys) = x @ sep @ py_join sep (y # ys)"

subsection \<open>Text-mode files\<close>

text \<open>
  Reading a file opened with \<^verbatim>\<open>open(path, "r")\<close> translates the line endings
  \<^verbatim>\<open>\r\n\<close> and \<^verbatim>\<open>\r\<close> to \<^verbatim>\<open>\n\<close> (universal newlines);
  \<^verbatim>\<open>readlines()\<close> then cuts the text after every \<^verbatim>\<open>\n\<close>, each line keeping
  its line ending. The first argument of \<open>cut_lines\<close> is the line read so far.
\<close>

fun universal_newlines :: "string \<Rightarrow> string" where
  "universal_newlines [] = []"
| "universal_newlines [c] = (if c = CR then [LF] else [c])"
| "universal_newlines (c # d # cs) =
     (if c = CR then
        (if d = LF then LF # universal_newlines cs else LF # universal_newlines (d # cs))
      else c # universal_newlines (d # cs))"

fun cut_lines :: "string \<Rightarrow> string \<Rightarrow> string list" where
  "cut_lines l [] = (if l = [] then [] else [l])"
| "cut_lines l (c # cs) =
     (if c = LF then (l @ [c]) # cut_lines [] cs else cut_lines (l @ [c]) cs)"

definition py_readlines :: "string \<Rightarrow> string list" where
  "py_readlines t = cut_lines [] (universal_newlines t)"

subsection \<open>Exceptions\<close>

text \<open>
  The exceptions the code can meet. A function that can raise returns \<open>error + 'a\<close>
  (\<open>Inl\<close> the exception) or, when it mutates state before raising, the exception as an
  \<open>error option\<close> beside the state it leaves.
\<close>

datatype error =
    FileNotFoundError
  | PermissionError
  | RequestException
  | JSONDecodeError
  | AttributeError
  | TypeError
  | KeyError
  | SchedulerAlreadyRunningError
  | SchedulerNotRunningError

subsection \<open>The hosts file\<close>

text \<open>
  The state of \<^verbatim>\<open>/etc/hosts\<close>: its text (\<open>None\<close> when the file does not exist) and
  whether the process may read and write it. \<^verbatim>\<open>open\<close> raises when the file is missing
  (mode \<^verbatim>\<open>"r"\<close>) or the permission is; modes \<^verbatim>\<open>"w"\<close> and \<^verbatim>\<open>"a"\<close> create a
  missing file, and \<^verbatim>\<open>"w"\<close> truncates. Once a file is open, reads and writes succeed.
\<close>

record hosts_fs =
  content :: "string option"
  readable :: bool
  writable :: bool

definition open_r :: "hosts_fs \<Rightarrow> error + string" where
  "open_r fs =
     (case content fs of
        None \<Rightarrow> Inl FileNotFoundError
      | Some t \<Rightarrow> if readable fs then Inr t else Inl PermissionError)"

definition open_w :: "hosts_fs \<Rightarrow> error + hosts_fs" where
  "open_w fs = (if writable fs then Inr (fs\<lparr>content := Some []\<rparr>) else Inl PermissionError)"

definition open_a :: "hosts_fs \<Rightarrow> error + hosts_fs" where
  "open_a fs =
     (if writable fs then
        Inr (fs\<lparr>content := Some (case content fs of None \<Rightarrow> [] | Some t \<Rightarrow> t)\<rparr>)
      else Inl PermissionError)"

text \<open>\<^verbatim>\<open>f.write(s)\<close> on the open file: \<open>s\<close> goes to the end of the text.\<close>

definition f_write :: "string \<Rightarrow> hosts_fs \<Rightarrow> hosts_fs" where
  "f_write s fs = fs\<lparr>content := Some ((case content fs of None \<Rightarrow> [] | Some t \<Rightarrow> t) @ s)\<rparr>"

fun f_write_all :: "string list \<Rightarrow> hosts_fs \<Rightarrow> hosts_fs" where
  "f_write_all [] fs = fs"
| "f_write_all (s # ss) fs = f_write_all ss (f_write s fs)"

subsection \<open>\<^verbatim>\<open>_write_hosts\<close> and \<^verbatim>\<open>_clear_system_hosts\<close>\<close>

definition start_marker :: string where
  "start_marker = ''# BetterHostsPlugin''"

definition end_marker :: string where
  "end_marker = ''# BetterHostsPlugin End''"

text \<open>
  \<^verbatim>\<open>_write_hosts(system_hosts, hosts_content)\<close>, lines 108-119: the file is opened in
  append mode and three strings are written; \<open>system_hosts\<close> is not used. The
  \<^verbatim>\<open>except\<close> clause swallows a failed \<^verbatim>\<open>open\<close>.
\<close>

definition write_hosts :: "string list \<Rightarrow> string list \<Rightarrow> hosts_fs \<Rightarrow> hosts_fs" where
  "write_hosts system_hosts hosts_content fs =
     (case open_a fs of
        Inl e \<Rightarrow> fs
      | Inr f \<Rightarrow>
          f_write_all
            [start_marker @ [LF], py_join [LF] hosts_content, LF # end_marker @ [LF]] f)"

text \<open>
  The loop of \<^verbatim>\<open>_clear_system_hosts\<close>, lines 129-136, as the list of the lines it
  hands to \<^verbatim>\<open>f.write\<close>, in order; the first argument is the flag \<^verbatim>\<open>write\<close>.
\<close>

fun clear_loop :: "bool \<Rightarrow> string list \<Rightarrow> string list" where
  "clear_loop write [] = []"
| "clear_loop write (line # lines) =
     (if py_strip line = start_marker then clear_loop False lines
      else if py_strip line = end_marker then clear_loop True lines
      else if write then line # clear_loop write lines
      else clear_loop write lines)"

text \<open>
  \<^verbatim>\<open>_clear_system_hosts()\<close>, lines 121-139: read all lines, reopen the file for
  writing (which empties it), write the lines the loop keeps. A failed \<^verbatim>\<open>open\<close>
  is swallowed by the \<^verbatim>\<open>except\<close> clause, so the function always returns.
\<close>

definition clear_system_hosts :: "hosts_fs \<Rightarrow> hosts_fs" where
  "clear_system_hosts fs =
     (case open_r fs of
        Inl e \<Rightarrow> fs
      | Inr t \<Rightarrow>
          (case open_w fs of
             Inl e \<Rightarrow> fs
           | Inr f \<Rightarrow> f_write_all (clear_loop True (py_readlines t)) f))"

subsection \<open>The DNS lookup's JSON\<close>

datatype json =
    JNull
  | JBool bool
  | JNum int
  | JStr string
  | JArr "json list"
  | JObj "(string \<times> json) list"

text \<open>\<^verbatim>\<open>x.get(key, default)\<close>: only a dict has the method.\<close>

fun py_get :: "json \<Rightarrow> string \<Rightarrow> json \<Rightarrow> error + json" where
  "py_get (JObj kvs) key dflt = Inr (case map_of kvs key of None \<Rightarrow> dflt | Some v \<Rightarrow> v)"
| "py_get x key dflt = Inl AttributeError"

text \<open>
  \<^verbatim>\<open>for entry in x\<close>: a list gives its items, a dict its keys, a string its
  characters; nothing else is iterable.
\<close>

fun py_iter :: "json \<Rightarrow> error + json list" where
  "py_iter (JArr xs) = Inr xs"
| "py_iter (JObj kvs) = Inr (map (\<lambda>kv. JStr (fst kv)) kvs)"
| "py_iter (JStr s) = Inr (map (\<lambda>c. JStr [c]) s)"
| "py_iter x = Inl TypeError"

text \<open>\<^verbatim>\<open>x[key]\<close> with a string key: only a dict accepts one.\<close>

fun py_getitem :: "json \<Rightarrow> string \<Rightarrow> error + json" where
  "py_getitem (JObj kvs) key = (case map_of kvs key of None \<Rightarrow> Inl KeyError | Some v \<Rightarrow> Inr v)"
| "py_getitem x key = Inl TypeError"

text \<open>The comprehension \<^verbatim>\<open>[entry['address'] for entry in ...]\<close>: the first exception ends it.\<close>

fun addresses :: "json list \<Rightarrow> error + json list" where
  "addresses [] = Inr []"
| "addresses (entry # entries) =
     (case py_getitem entry ''address'' of
        Inl e \<Rightarrow> Inl e
      | Inr a \<Rightarrow> (case addresses entries of Inl e \<Rightarrow> Inl e | Inr as \<Rightarrow> Inr (a # as)))"

text \<open>
  What \<^verbatim>\<open>requests.get\<close> returns: the status, the body as \<^verbatim>\<open>response.text\<close>
  gives it, and what \<^verbatim>\<open>response.json()\<close> gives.
\<close>

record response =
  status_code :: int
  response_text :: string
  json_body :: "error + json"

text \<open>Line 93: \<^verbatim>\<open>response.json().get("records", {}).get("A", [])\<close> and the comprehension.\<close>

definition ip_addresses :: "response \<Rightarrow> error + json list" where
  "ip_addresses r =
     (case json_body r of
        Inl e \<Rightarrow> Inl e
      | Inr j \<Rightarrow>
          (case py_get j ''records'' (JObj []) of
             Inl e \<Rightarrow> Inl e
           | Inr recs \<Rightarrow>
               (case py_get recs ''A'' (JArr []) of
                  Inl e \<Rightarrow> Inl e
                | Inr a \<Rightarrow> (case py_iter a of Inl e \<Rightarrow> Inl e | Inr entries \<Rightarrow> addresses entries))))"

subsection \<open>What the class takes from outside its source\<close>

text \<open>
  \<^verbatim>\<open>update_hosts\<close> calls \<^verbatim>\<open>self._read_system_hosts()\<close>, a method the source does
  not define; it is a parameter here, returning the lines it read or raising. The
  f-string of line 95 applies \<^verbatim>\<open>str()\<close> to the address, which for a JSON string
  is the string itself; what \<^verbatim>\<open>str()\<close> prints for any other JSON value is the
  parameter \<open>py_str\<close>.
\<close>

record externals =
  read_system_hosts :: "hosts_fs \<Rightarrow> error + string list"
  py_str :: "json \<Rightarrow> string"

text \<open>
  Modelled from the spec: \<^verbatim>\<open>_read_system_hosts\<close> is missing from the source. The
  spec's \<^verbatim>\<open>currentLines()\<close> "reads the file faithfully, preserving every byte-level
  line as-is", and a read or permission failure on the hosts file is a
  \<^verbatim>\<open>FileAccessError\<close>.
\<close>

definition current_lines :: "hosts_fs \<Rightarrow> error + string list" where
  "current_lines fs = (case open_r fs of Inl e \<Rightarrow> Inl e | Inr t \<Rightarrow> Inr (py_readlines t))"

text \<open>
  The results of one cycle's HTTP requests: \<open>bulk\<close> is
  \<^verbatim>\<open>requests.get(self._github_host_url)\<close>, and \<open>dns domain\<close> is
  \<^verbatim>\<open>requests.get(f"{self._dns_api}/{domain}")\<close>; \<open>Inl\<close> when the call raised.
\<close>

record fetched =
  bulk :: "error + response"
  dns :: "string \<Rightarrow> error + response"

subsection \<open>The plugin object\<close>

text \<open>A configuration value, as far as the code tells values apart.\<close>

datatype pyval = PNone | PBool bool | PStr string

fun truthy :: "pyval \<Rightarrow> bool" where
  "truthy PNone = False"
| "truthy (PBool b) = b"
| "truthy (PStr s) = (s \<noteq> [])"

text \<open>
  An APScheduler \<^verbatim>\<open>BackgroundScheduler\<close>: whether it runs, and the triggers of the
  jobs added to it. \<^verbatim>\<open>start\<close> raises on a scheduler that runs, \<^verbatim>\<open>shutdown\<close> on one
  that does not; \<^verbatim>\<open>shutdown\<close> stops the job store, which drops its jobs.
\<close>

datatype trigger = Hours nat | Days nat | Weeks nat

record background_scheduler =
  running :: bool
  jobs :: "trigger list"

definition BackgroundScheduler :: background_scheduler where
  "BackgroundScheduler = \<lparr>running = False, jobs = []\<rparr>"

definition add_job :: "trigger \<Rightarrow> background_scheduler \<Rightarrow> background_scheduler" where
  "add_job t s = s\<lparr>jobs := jobs s @ [t]\<rparr>"

definition start :: "background_scheduler \<Rightarrow> error + background_scheduler" where
  "start s = (if running s then Inl SchedulerAlreadyRunningError else Inr (s\<lparr>running := True\<rparr>))"

definition shutdown :: "background_scheduler \<Rightarrow> error + background_scheduler" where
  "shutdown s =
     (if running s then Inr (s\<lparr>running := False, jobs := []\<rparr>)
      else Inl SchedulerNotRunningError)"

text \<open>The attributes of lines 23-28 that the methods read and assign.\<close>

record plugin =
  enabled :: pyval
  domain_list :: "string list"
  scheduler :: "background_scheduler option"
  schedule_interval :: pyval

definition default_domain_list :: "string list" where
  "default_domain_list = [''api.themoviedb.org'', ''image.tmdb.org'']"

definition new_plugin :: plugin where
  "new_plugin =
     \<lparr>enabled = PBool False, domain_list = default_domain_list,
      scheduler = None, schedule_interval = PNone\<rparr>"

subsection \<open>\<^verbatim>\<open>update_hosts\<close>\<close>

text \<open>Line 95: \<^verbatim>\<open>f"{ip}\t{domain}"\<close>.\<close>

fun format_ip :: "externals \<Rightarrow> json \<Rightarrow> string" where
  "format_ip ext (JStr s) = s"
| "format_ip ext v = py_str ext v"

definition host_line :: "externals \<Rightarrow> string \<Rightarrow> json \<Rightarrow> string" where
  "host_line ext domain ip = format_ip ext ip @ [TAB] @ domain"

text \<open>
  One turn of the loop of lines 89-100, on the pair of \<^verbatim>\<open>hosts_content\<close> and
  \<^verbatim>\<open>error_domains\<close>.
\<close>

definition lookup_domain ::
  "externals \<Rightarrow> fetched \<Rightarrow> string \<Rightarrow> string list \<times> string list \<Rightarrow> string list \<times> string list" where
  "lookup_domain ext net domain acc =
     (case dns net domain of
        Inl e \<Rightarrow> (fst acc, snd acc @ [domain])
      | Inr response \<Rightarrow>
          if status_code response = 200 then
            (case ip_addresses response of
               Inl e \<Rightarrow> (fst acc, snd acc @ [domain])
             | Inr ips \<Rightarrow> (fst acc @ map (host_line ext domain) ips, snd acc))
          else (fst acc, snd acc @ [domain]))"

fun lookup_domains ::
  "externals \<Rightarrow> fetched \<Rightarrow> string list \<Rightarrow> string list \<times> string list \<Rightarrow> string list \<times> string list" where
  "lookup_domains ext net [] acc = acc"
| "lookup_domains ext net (domain # domains) acc =
     lookup_domains ext net domains (lookup_domain ext net domain acc)"

text \<open>
  Lines 76-100: \<^verbatim>\<open>hosts_content\<close> and \<^verbatim>\<open>error_domains\<close> when the loop is
  done. Line 82 reads the \<^verbatim>\<open>text\<close> of the bulk response and not its status.
\<close>

definition collect_hosts :: "externals \<Rightarrow> fetched \<Rightarrow> plugin \<Rightarrow> string list \<times> string list" where
  "collect_hosts ext net self =
     lookup_domains ext net (domain_list self)
       ((case bulk net of Inl e \<Rightarrow> [] | Inr response \<Rightarrow> [response_text response]), [])"

text \<open>
  \<^verbatim>\<open>update_hosts()\<close>, lines 72-106. The read of line 78 stands outside every
  \<^verbatim>\<open>try\<close>, so what it raises leaves the method.
\<close>

definition update_hosts ::
  "externals \<Rightarrow> fetched \<Rightarrow> plugin \<Rightarrow> hosts_fs \<Rightarrow> error option \<times> hosts_fs" where
  "update_hosts ext net self fs =
     (case read_system_hosts ext fs of
        Inl e \<Rightarrow> (Some e, fs)
      | Inr system_hosts \<Rightarrow>
          (let hosts_content = fst (collect_hosts ext net self)
           in if hosts_content \<noteq> [] then (None, write_hosts system_hosts hosts_content fs)
              else (None, fs)))"

subsection \<open>\<^verbatim>\<open>setup_scheduler\<close>, \<^verbatim>\<open>stop_service\<close>, \<^verbatim>\<open>init_plugin\<close>\<close>

text \<open>Lines 59-65.\<close>

definition interval_of :: "pyval \<Rightarrow> trigger option" where
  "interval_of v =
     (if v = PStr ''1hour'' then Some (Hours 1)
      else if v = PStr ''1day'' then Some (Days 1)
      else if v = PStr ''1week'' then Some (Weeks 1)
      else None)"

text \<open>
  \<^verbatim>\<open>setup_scheduler()\<close>, lines 52-70. When \<^verbatim>\<open>start()\<close> raises, the job of line 68
  has been added already.
\<close>

definition setup_scheduler :: "plugin \<Rightarrow> error option \<times> plugin" where
  "setup_scheduler self =
     (let s = (case scheduler self of None \<Rightarrow> BackgroundScheduler | Some s \<Rightarrow> s)
      in case interval_of (schedule_interval self) of
           None \<Rightarrow> (None, self\<lparr>scheduler := Some s\<rparr>)
         | Some interval \<Rightarrow>
             (case start (add_job interval s) of
                Inl e \<Rightarrow> (Some e, self\<lparr>scheduler := Some (add_job interval s)\<rparr>)
              | Inr s' \<Rightarrow> (None, self\<lparr>scheduler := Some s'\<rparr>)))"

text \<open>
  \<^verbatim>\<open>stop_service()\<close>, lines 43-50. A scheduler object is true whether it runs or
  not, and \<^verbatim>\<open>self._scheduler\<close> is not reset.
\<close>

definition stop_service :: "plugin \<Rightarrow> hosts_fs \<Rightarrow> error option \<times> plugin \<times> hosts_fs" where
  "stop_service self fs =
     (case scheduler self of
        None \<Rightarrow> (None, self, clear_system_hosts fs)
      | Some s \<Rightarrow>
          (case shutdown s of
             Inl e \<Rightarrow> (Some e, self, fs)
           | Inr s' \<Rightarrow> (None, self\<lparr>scheduler := Some s'\<rparr>, clear_system_hosts fs)))"

text \<open>The configuration dict, and \<^verbatim>\<open>config.get(key, default)\<close>.\<close>

type_synonym config = "(string \<times> pyval) list"

definition config_get :: "config \<Rightarrow> string \<Rightarrow> pyval \<Rightarrow> pyval" where
  "config_get c key dflt = (case map_of c key of None \<Rightarrow> dflt | Some v \<Rightarrow> v)"

text \<open>
  Line 34: \<^verbatim>\<open>custom_domains.split() if custom_domains else self._domain_list\<close>; only a
  string has \<^verbatim>\<open>split\<close>.
\<close>

definition new_domain_list :: "pyval \<Rightarrow> string list \<Rightarrow> error + string list" where
  "new_domain_list custom_domains current =
     (if truthy custom_domains then
        (case custom_domains of PStr s \<Rightarrow> Inr (py_split s) | _ \<Rightarrow> Inl AttributeError)
      else Inr current)"

text \<open>
  \<^verbatim>\<open>init_plugin(config)\<close>, lines 30-41; \<open>None\<close> and the empty dict are false. An
  exception leaves the attributes assigned before it.
\<close>

definition init_plugin ::
  "externals \<Rightarrow> fetched \<Rightarrow> config option \<Rightarrow> plugin \<Rightarrow> hosts_fs \<Rightarrow> error option \<times> plugin \<times> hosts_fs" where
  "init_plugin ext net config self fs =
     (case config of
        None \<Rightarrow> (None, self, fs)
      | Some c \<Rightarrow>
          if c = [] then (None, self, fs)
          else
            (let self1 = self\<lparr>enabled := config_get c ''enabled'' (PBool False)\<rparr>
             in case new_domain_list (config_get c ''domain_list'' (PStr [])) (domain_list self1) of
                  Inl e \<Rightarrow> (Some e, self1, fs)
                | Inr dl \<Rightarrow>
                    (let self2 = self1\<lparr>domain_list := dl,
                           schedule_interval := config_get c ''schedule_interval'' (PStr ''1hour'')\<rparr>
                     in if truthy (enabled self2) then
                          (case update_hosts ext net self2 fs of
                             (Some e, fs') \<Rightarrow> (Some e, self2, fs')
                           | (None, fs') \<Rightarrow>
                               (case setup_scheduler self2 of (r, self3) \<Rightarrow> (r, self3, fs')))
                        else (None, self2, clear_system_hosts fs))))"

subsection \<open>Sequences of operations\<close>

text \<open>
  The operations the host and the scheduler run on the plugin, each update with the
  results its requests get. An exception goes to the caller, which goes on with the
  state the operation left.
\<close>

datatype operation =
    UpdateCycle fetched
  | Configure "config option" fetched
  | StopService
  | ClearHosts

fun run_op :: "externals \<Rightarrow> operation \<Rightarrow> plugin \<times> hosts_fs \<Rightarrow> plugin \<times> hosts_fs" where
  "run_op ext (UpdateCycle net) (self, fs) = (self, snd (update_hosts ext net self fs))"
| "run_op ext (Configure config net) (self, fs) = snd (init_plugin ext net config self fs)"
| "run_op ext StopService (self, fs) = snd (stop_service self fs)"
| "run_op ext ClearHosts (self, fs) = (self, clear_system_hosts fs)"

fun run_ops :: "externals \<Rightarrow> operation list \<Rightarrow> plugin \<times> hosts_fs \<Rightarrow> plugin \<times> hosts_fs" where
  "run_ops ext [] st = st"
| "run_ops ext (op # ops) st = run_ops ext ops (run_op ext op st)"

section \<open>Notions the statements use\<close>

text \<open>The text of the file, empty when the file does not exist.\<close>

definition file_text :: "hosts_fs \<Rightarrow> string" where
  "file_text fs = (case content fs of None \<Rightarrow> [] | Some t \<Rightarrow> t)"

text \<open>The text the three writes of \<^verbatim>\<open>_write_hosts\<close> add for \<open>hosts_content\<close>.\<close>

definition block_text :: "string list \<Rightarrow> string" where
  "block_text hosts_content =
     start_marker @ [LF] @ py_join [LF] hosts_content @ [LF] @ end_marker @ [LF]"

text \<open>A line the loop takes for a marker: it equals one after \<^verbatim>\<open>strip()\<close>.\<close>

definition is_marker_line :: "string \<Rightarrow> bool" where
  "is_marker_line l = (py_strip l = start_marker \<or> py_strip l = end_marker)"

text \<open>
  The resolution of one domain, in the words of the merge step: \<open>Some\<close> of the
  addresses when the request returned status 200 and the addresses were read from its
  JSON, \<open>None\<close> when the request raised, the status was another, or reading the JSON
  raised.
\<close>

definition resolved :: "fetched \<Rightarrow> string \<Rightarrow> json list option" where
  "resolved net domain =
     (case dns net domain of
        Inl e \<Rightarrow> None
      | Inr r \<Rightarrow>
          if status_code r = 200 then
            (case ip_addresses r of Inl e \<Rightarrow> None | Inr ips \<Rightarrow> Some ips)
          else None)"

text \<open>The lines one domain contributes: one per address, none when it is not resolved.\<close>

definition domain_lines :: "externals \<Rightarrow> fetched \<Rightarrow> string \<Rightarrow> string list" where
  "domain_lines ext net domain =
     (case resolved net domain of
        None \<Rightarrow> []
      | Some ips \<Rightarrow> map (\<lambda>ip. format_ip ext ip @ [TAB] @ domain) ips)"

section \<open>Concrete inputs\<close>

text \<open>
  The end-to-end scenario: the bulk request returns status 200 with the one line
  \<^verbatim>\<open>1.2.3.4\tfoo.bar\<close>, \<^verbatim>\<open>x.example.com\<close> resolves to \<^verbatim>\<open>5.6.7.8\<close>, every
  other lookup fails. All addresses are strings, so \<open>py_str\<close> is never applied.
\<close>

definition example_ext :: externals where
  "example_ext = \<lparr>read_system_hosts = current_lines, py_str = (\<lambda>v. ''?'')\<rparr>"

definition a_records :: "string list \<Rightarrow> response" where
  "a_records ips =
     \<lparr>status_code = 200, response_text = [],
      json_body = Inr (JObj [(''records'',
        JObj [(''A'', JArr (map (\<lambda>ip. JObj [(''address'', JStr ip)]) ips))])])\<rparr>"

definition hosts_page :: "string \<Rightarrow> response" where
  "hosts_page t = \<lparr>status_code = 200, response_text = t, json_body = Inl JSONDecodeError\<rparr>"

definition example_net :: fetched where
  "example_net =
     \<lparr>bulk = Inr (hosts_page (''1.2.3.4'' @ [TAB] @ ''foo.bar'')),
      dns = (\<lambda>d. if d = ''x.example.com'' then Inr (a_records [''5.6.7.8''])
                  else Inl RequestException)\<rparr>"

text \<open>The same lookups, with a bulk request that raises.\<close>

definition bulk_down_net :: fetched where
  "bulk_down_net =
     \<lparr>bulk = Inl RequestException,
      dns = (\<lambda>d. if d = ''x.example.com'' then Inr (a_records [''5.6.7.8''])
                  else Inl RequestException)\<rparr>"

text \<open>
  A bulk list, returned with status 200, whose one line names \<^verbatim>\<open>x.example.com\<close>,
  while every lookup fails.
\<close>

definition naming_net :: fetched where
  "naming_net =
     \<lparr>bulk = Inr (hosts_page (''9.9.9.9'' @ [TAB] @ ''x.example.com'')),
      dns = (\<lambda>d. Inl RequestException)\<rparr>"

text \<open>
  Nothing is obtained: the bulk request is answered with status 500 and an empty body,
  and every lookup fails.
\<close>

definition error_page_net :: fetched where
  "error_page_net =
     \<lparr>bulk = Inr \<lparr>status_code = 500, response_text = [], json_body = Inl JSONDecodeError\<rparr>,
      dns = (\<lambda>d. Inl RequestException)\<rparr>"

definition example_fs :: hosts_fs where
  "example_fs = \<lparr>content = Some ''127.0.0.1 localhost\<newline>'', readable = True, writable = True\<rparr>"

definition example_config :: config where
  "example_config =
     [(''enabled'', PBool True), (''domain_list'', PStr ''x.example.com''),
      (''schedule_interval'', PStr ''1hour'')]"

definition example_plugin :: plugin where
  "example_plugin = new_plugin\<lparr>domain_list := [''x.example.com'']\<rparr>"

text \<open>A plugin whose first domain is not resolved in the scenario.\<close>

definition mixed_plugin :: plugin where
  "mixed_plugin = new_plugin\<lparr>domain_list := [''down.example.net'', ''x.example.com'']\<rparr>"

text \<open>Configurations with a domain list between whitespace, and with none.\<close>

definition spaced_config :: config where
  "spaced_config =
     [(''enabled'', PBool False),
      (''domain_list'', PStr ('' a.example.com'' @ [LF, TAB] @ ''b.example.org ''))]"

definition bare_config :: config where
  "bare_config = [(''enabled'', PBool False)]"

text \<open>No hosts file, and no permission to create one.\<close>

definition missing_fs :: hosts_fs where
  "missing_fs = \<lparr>content = None, readable = True, writable = False\<rparr>"

definition example_block :: string where
  "example_block =
     ''# BetterHostsPlugin\<newline>1.2.3.4'' @ [TAB] @ ''foo.bar\<newline>5.6.7.8'' @ [TAB] @
     ''x.example.com\<newline># BetterHostsPlugin End\<newline>''"

text \<open>The number of lines of the file that read as the start marker.\<close>

definition count_start_markers :: "hosts_fs \<Rightarrow> nat" where
  "count_start_markers fs =
     length (filter (\<lambda>l. py_strip l = start_marker) (py_readlines (file_text fs)))"

definition disable_config :: config where
  "disable_config = [(''enabled'', PBool False)]"

text \<open>The plugin after it was enabled with \<open>example_config\<close>: one hourly job, running.\<close>

definition armed_plugin :: plugin where
  "armed_plugin =
     \<lparr>enabled = PBool True, domain_list = [''x.example.com''],
      scheduler = Some \<lparr>running = True, jobs = [Hours 1]\<rparr>,
      schedule_interval = PStr ''1hour''\<rparr>"

text \<open>A hosts file whose last line has no line ending, and one with a CRLF line ending.\<close>

definition unterminated_fs :: hosts_fs where
  "unterminated_fs = \<lparr>content = Some ''127.0.0.1 localhost'', readable = True, writable = True\<rparr>"

definition crlf_fs :: hosts_fs where
  "crlf_fs =
     \<lparr>content = Some (''10.0.0.1 router'' @ [CR, LF]), readable = True, writable = True\<rparr>"

section \<open>Facts about the writes and the plugin state\<close>

lemma content_f_write_all:
  "content f = Some t \<Longrightarrow> f_write_all ss f = f\<lparr>content := Some (t @ concat ss)\<rparr>"
  by (induction ss arbitrary: f t) (auto simp: f_write_def)

lemma start_neq_end: "start_marker \<noteq> end_marker"
  by (simp add: start_marker_def end_marker_def)

lemma collect_hosts_domain_list:
  "domain_list a = domain_list b \<Longrightarrow> collect_hosts ext net a = collect_hosts ext net b"
  by (simp add: collect_hosts_def)

lemma setup_scheduler_domain_list: "domain_list (snd (setup_scheduler self)) = domain_list self"
  by (simp add: setup_scheduler_def Let_def split: option.splits sum.splits)

section \<open>Which lines the strip removes\<close>

lemma clear_loop_plain_prefix:
  "\<forall>l \<in> set pre. \<not> is_marker_line l \<Longrightarrow> clear_loop True (pre @ ls) = pre @ clear_loop True ls"
  by (induction pre) (auto simp: is_marker_line_def)

lemma clear_loop_inside:
  "\<forall>l \<in> set mid. py_strip l \<noteq> end_marker \<Longrightarrow> clear_loop False (mid @ ls) = clear_loop False ls"
  by (induction mid) auto

lemma clear_loop_inside_end:
  "\<forall>l \<in> set mid. py_strip l \<noteq> end_marker \<Longrightarrow> clear_loop False mid = []"
  by (induction mid) auto

text \<open>
  Claim C4, amended. A line is a marker line when it equals a marker after
  \<^verbatim>\<open>strip()\<close>. With no marker line before it, a start-marker line, the lines up to
  the next end-marker line and that line are removed, and the loop goes on in the same
  way with the lines after it. A sequence with no marker line of either kind is left
  as it is. A start marker with no end marker after it takes every line to the end of
  the sequence with it and keeps the lines before it. An end-marker line outside a
  block is removed too. The loop raises nowhere.
\<close>

theorem clear_loop_ranges:
  "((\<forall>l \<in> set pre. \<not> is_marker_line l) \<and> py_strip s = start_marker \<and>
      (\<forall>l \<in> set mid. py_strip l \<noteq> end_marker) \<and> py_strip e = end_marker \<longrightarrow>
      clear_loop True (pre @ s # mid @ e # post) = pre @ clear_loop True post) \<and>
   ((\<forall>l \<in> set ls. \<not> is_marker_line l) \<longrightarrow> clear_loop True ls = ls) \<and>
   ((\<forall>l \<in> set pre. \<not> is_marker_line l) \<and> py_strip s = start_marker \<and>
      (\<forall>l \<in> set mid. py_strip l \<noteq> end_marker) \<longrightarrow>
      clear_loop True (pre @ s # mid) = pre) \<and>
   ((\<forall>l \<in> set pre. \<not> is_marker_line l) \<and> py_strip e = end_marker \<longrightarrow>
      clear_loop True (pre @ e # post) = pre @ clear_loop True post)"
proof (intro conjI impI)
  assume h: "(\<forall>l \<in> set pre. \<not> is_marker_line l) \<and> py_strip s = start_marker \<and>
      (\<forall>l \<in> set mid. py_strip l \<noteq> end_marker) \<and> py_strip e = end_marker"
  then have "clear_loop True (pre @ s # mid @ e # post) = pre @ clear_loop False (mid @ e # post)"
    by (simp add: clear_loop_plain_prefix)
  also from h have "clear_loop False (mid @ e # post) = clear_loop False (e # post)"
    by (simp add: clear_loop_inside)
  also from h have "\<dots> = clear_loop True post"
    by (simp add: start_neq_end [symmetric])
  finally show "clear_loop True (pre @ s # mid @ e # post) = pre @ clear_loop True post" .
next
  assume "\<forall>l \<in> set ls. \<not> is_marker_line l"
  then show "clear_loop True ls = ls"
    using clear_loop_plain_prefix [of ls "[]"] by simp
next
  assume h: "(\<forall>l \<in> set pre. \<not> is_marker_line l) \<and> py_strip s = start_marker \<and>
      (\<forall>l \<in> set mid. py_strip l \<noteq> end_marker)"
  then have "clear_loop True (pre @ s # mid) = pre @ clear_loop False mid"
    by (simp add: clear_loop_plain_prefix)
  with h show "clear_loop True (pre @ s # mid) = pre"
    by (simp add: clear_loop_inside_end)
next
  assume h: "(\<forall>l \<in> set pre. \<not> is_marker_line l) \<and> py_strip e = end_marker"
  then show "clear_loop True (pre @ e # post) = pre @ clear_loop True post"
    by (simp add: clear_loop_plain_prefix start_neq_end [symmetric])
qed

lemmas eval_strip = py_strip_def py_isspace_def start_marker_def end_marker_def is_marker_line_def

text \<open>The four cases of C4's theorem on a file of five lines and on parts of it.\<close>

theorem clear_loop_ranges_witness:
  "py_strip ''  # BetterHostsPlugin \<newline>'' = start_marker \<and>
   py_strip ''# BetterHostsPlugin End\<newline>'' = end_marker \<and>
   clear_loop True [''a\<newline>'', ''  # BetterHostsPlugin \<newline>'', ''x\<newline>'', ''# BetterHostsPlugin End\<newline>'', ''c\<newline>''] = [''a\<newline>'', ''c\<newline>''] \<and>
   clear_loop True [''a\<newline>'', ''c\<newline>''] = [''a\<newline>'', ''c\<newline>''] \<and>
   clear_loop True [''a\<newline>'', ''  # BetterHostsPlugin \<newline>'', ''x\<newline>''] = [''a\<newline>''] \<and>
   clear_loop True [''a\<newline>'', ''# BetterHostsPlugin End\<newline>'', ''c\<newline>''] = [''a\<newline>'', ''c\<newline>'']"
proof -
  let ?a = "''a\<newline>''" and ?s = "''  # BetterHostsPlugin \<newline>''" and ?x = "''x\<newline>''"
    and ?e = "''# BetterHostsPlugin End\<newline>''" and ?c = "''c\<newline>''"
  have s: "py_strip ?s = start_marker" by (simp add: eval_strip)
  have e: "py_strip ?e = end_marker" by (simp add: eval_strip)
  have a: "\<forall>l \<in> set [?a]. \<not> is_marker_line l" by (simp add: eval_strip)
  have x: "\<forall>l \<in> set [?x]. py_strip l \<noteq> end_marker" by (simp add: eval_strip)
  have ac: "\<forall>l \<in> set [?a, ?c]. \<not> is_marker_line l" by (simp add: eval_strip)
  have c: "clear_loop True [?c] = [?c]" by (simp add: eval_strip)
  from clear_loop_ranges [of "[?a]" ?s "[?x]" ?e "[?c]" "[?a, ?c]"] s e a x ac c
  show ?thesis by simp
qed

text \<open>
  Claim C4 as stated fails: these two lines hold no start marker, and the loop does
  not return them unchanged.
\<close>

theorem clear_loop_stray_end_counterexample:
  "py_strip ''# BetterHostsPlugin End\<newline>'' \<noteq> start_marker \<and>
   py_strip ''127.0.0.1 localhost\<newline>'' \<noteq> start_marker \<and>
   clear_loop True [''# BetterHostsPlugin End\<newline>'', ''127.0.0.1 localhost\<newline>'']
     = [''127.0.0.1 localhost\<newline>''] \<and>
   clear_loop True [''# BetterHostsPlugin End\<newline>'', ''127.0.0.1 localhost\<newline>'']
     \<noteq> [''# BetterHostsPlugin End\<newline>'', ''127.0.0.1 localhost\<newline>'']"
  by (simp add: eval_strip)

section \<open>The content an update cycle builds\<close>

lemma lookup_domain_eq:
  "lookup_domain ext net d acc =
     (fst acc @ domain_lines ext net d, snd acc @ (if resolved net d = None then [d] else []))"
  by (simp add: lookup_domain_def domain_lines_def resolved_def host_line_def
      split: sum.splits)

lemma lookup_domains_eq:
  "lookup_domains ext net ds acc =
     (fst acc @ concat (map (domain_lines ext net) ds),
      snd acc @ filter (\<lambda>d. resolved net d = None) ds)"
  by (induction ds arbitrary: acc) (simp_all add: lookup_domain_eq)

lemma collect_hosts_eq:
  "collect_hosts ext net self =
     ((case bulk net of Inl e \<Rightarrow> [] | Inr r \<Rightarrow> [response_text r]) @
        concat (map (domain_lines ext net) (domain_list self)),
      filter (\<lambda>d. resolved net d = None) (domain_list self))"
  by (simp add: collect_hosts_def lookup_domains_eq)

lemma update_hosts_writes:
  assumes "read_system_hosts ext fs = Inr system_hosts" and "writable fs"
    and "fst (collect_hosts ext net self) \<noteq> []"
  shows "update_hosts ext net self fs =
     (None, fs\<lparr>content := Some (file_text fs @ block_text (fst (collect_hosts ext net self)))\<rparr>)"
proof -
  have "content (fs\<lparr>content := Some (file_text fs)\<rparr>) = Some (file_text fs)" by simp
  from content_f_write_all [OF this] assms show ?thesis
    by (simp add: update_hosts_def write_hosts_def open_a_def file_text_def block_text_def)
qed

lemma after_last_tab:
  assumes "a @ [TAB] @ d = b @ [TAB] @ d'" and "TAB \<notin> set d" and "TAB \<notin> set d'"
  shows "d = d'"
proof -
  have "takeWhile (\<lambda>c. c \<noteq> TAB) (rev (a @ [TAB] @ d)) = rev d"
    using assms(2) by (auto simp: takeWhile_tail takeWhile_eq_all_conv)
  moreover have "takeWhile (\<lambda>c. c \<noteq> TAB) (rev (b @ [TAB] @ d')) = rev d'"
    using assms(3) by (auto simp: takeWhile_tail takeWhile_eq_all_conv)
  ultimately have "rev d = rev d'" using assms(1) by metis
  then show ?thesis by simp
qed

lemma unresolved_names_no_line:
  assumes "\<forall>d' \<in> set ds. TAB \<notin> set d'" and "d \<in> set ds"
    and "resolved net d = None \<or> resolved net d = Some []"
    and "line \<in> set (concat (map (domain_lines ext net) ds))"
  shows "line \<noteq> ip @ [TAB] @ d"
proof
  assume l: "line = ip @ [TAB] @ d"
  from assms(4) obtain d' where d': "d' \<in> set ds" "line \<in> set (domain_lines ext net d')"
    by auto
  show False
  proof (cases "resolved net d'")
    case None
    with d'(2) show False by (simp add: domain_lines_def)
  next
    case (Some ips)
    with d'(2) obtain a where a: "a \<in> set ips" "line = format_ip ext a @ [TAB] @ d'"
      by (auto simp: domain_lines_def)
    from assms(1,2) d'(1) have "TAB \<notin> set d" "TAB \<notin> set d'" by auto
    with l a(2) have "d = d'" using after_last_tab [of ip d "format_ip ext a" d'] by simp
    with Some a(1) assms(3) show False by auto
  qed
qed

text \<open>
  Claim C5, amended. The content \<^verbatim>\<open>update_hosts\<close> builds is, in order: the text of
  the bulk response as its first element when the bulk request returned with status 200
  (no such element when the request raised), then for each domain of the domain list in
  order the line \<^verbatim>\<open>"{address}\t{domain}"\<close> of each address in the order the
  addresses came. A domain that is not resolved (the request raised, the status was not
  200, reading the JSON raised) or has no A record contributes no line, and is the
  domain of no line the loop adds (domains hold no tab); the bulk text is copied as it
  is and may name it. When the hosts file was read and can be written and the content
  is not empty, the file's text is the old text, the start marker, the content joined
  by newlines and the end marker.
\<close>

theorem hosts_content_order:
  "(bulk net = Inl e \<longrightarrow>
      fst (collect_hosts ext net self) =
        concat (map (domain_lines ext net) (domain_list self))) \<and>
   (bulk net = Inr r \<and> status_code r = 200 \<longrightarrow>
      fst (collect_hosts ext net self) =
        response_text r # concat (map (domain_lines ext net) (domain_list self))) \<and>
   domain_lines ext net domain =
     (case resolved net domain of
        None \<Rightarrow> []
      | Some ips \<Rightarrow> map (\<lambda>ip. format_ip ext ip @ [TAB] @ domain) ips) \<and>
   ((\<forall>d' \<in> set (domain_list self). TAB \<notin> set d') \<and> d \<in> set (domain_list self) \<and>
    (resolved net d = None \<or> resolved net d = Some []) \<longrightarrow>
      domain_lines ext net d = [] \<and>
      (\<forall>line \<in> set (concat (map (domain_lines ext net) (domain_list self))).
         \<forall>ip. line \<noteq> ip @ [TAB] @ d)) \<and>
   (read_system_hosts ext fs = Inr system_hosts \<and> writable fs \<and>
    fst (collect_hosts ext net self) \<noteq> [] \<longrightarrow>
      content (snd (update_hosts ext net self fs)) =
        Some (file_text fs @ start_marker @ [LF] @
              py_join [LF] (fst (collect_hosts ext net self)) @ [LF] @ end_marker @ [LF]))"
proof (intro conjI impI)
  assume "bulk net = Inl e"
  then show "fst (collect_hosts ext net self) =
      concat (map (domain_lines ext net) (domain_list self))"
    by (simp add: collect_hosts_eq)
next
  assume "bulk net = Inr r \<and> status_code r = 200"
  then show "fst (collect_hosts ext net self) =
      response_text r # concat (map (domain_lines ext net) (domain_list self))"
    by (simp add: collect_hosts_eq)
next
  show "domain_lines ext net domain =
     (case resolved net domain of
        None \<Rightarrow> []
      | Some ips \<Rightarrow> map (\<lambda>ip. format_ip ext ip @ [TAB] @ domain) ips)"
    by (simp add: domain_lines_def)
next
  assume "(\<forall>d' \<in> set (domain_list self). TAB \<notin> set d') \<and> d \<in> set (domain_list self) \<and>
    (resolved net d = None \<or> resolved net d = Some [])"
  then show "domain_lines ext net d = []"
    by (auto simp: domain_lines_def)
next
  assume h: "(\<forall>d' \<in> set (domain_list self). TAB \<notin> set d') \<and> d \<in> set (domain_list self) \<and>
    (resolved net d = None \<or> resolved net d = Some [])"
  show "\<forall>line \<in> set (concat (map (domain_lines ext net) (domain_list self))).
         \<forall>ip. line \<noteq> ip @ [TAB] @ d"
  proof (intro ballI allI)
    fix line ip
    assume "line \<in> set (concat (map (domain_lines ext net) (domain_list self)))"
    with h show "line \<noteq> ip @ [TAB] @ d"
      using unresolved_names_no_line [of "domain_list self" d net line ext ip] by blast
  qed
next
  assume "read_system_hosts ext fs = Inr system_hosts \<and> writable fs \<and>
    fst (collect_hosts ext net self) \<noteq> []"
  then show "content (snd (update_hosts ext net self fs)) =
        Some (file_text fs @ start_marker @ [LF] @
              py_join [LF] (fst (collect_hosts ext net self)) @ [LF] @ end_marker @ [LF])"
    using update_hosts_writes [of ext fs system_hosts net self]
    by (simp add: block_text_def)
qed

lemma a_records_addresses: "addresses (map (\<lambda>ip. JObj [(''address'', JStr ip)]) ips) = Inr (map JStr ips)"
  by (induction ips) simp_all

lemma ip_addresses_a_records: "ip_addresses (a_records ips) = Inr (map JStr ips)"
  by (simp add: ip_addresses_def a_records_def a_records_addresses)

lemma resolved_example: "resolved example_net ''x.example.com'' = Some [JStr ''5.6.7.8'']"
  by (simp add: resolved_def example_net_def ip_addresses_a_records) (simp add: a_records_def)

lemma collect_example:
  "fst (collect_hosts example_ext example_net example_plugin) =
     [''1.2.3.4'' @ [TAB] @ ''foo.bar'', ''5.6.7.8'' @ [TAB] @ ''x.example.com'']"
proof -
  have d: "domain_lines example_ext example_net ''x.example.com'' =
      [''5.6.7.8'' @ [TAB] @ ''x.example.com'']"
    by (simp add: domain_lines_def resolved_example)
  have b: "bulk example_net = Inr (hosts_page (''1.2.3.4'' @ [TAB] @ ''foo.bar''))"
    by (simp add: example_net_def)
  have l: "domain_list example_plugin = [''x.example.com'']"
    by (simp add: example_plugin_def)
  show ?thesis by (simp add: collect_hosts_eq d b l hosts_page_def)
qed

lemma resolved_down: "resolved example_net ''down.example.net'' = None"
  by (simp add: resolved_def example_net_def)

lemma collect_mixed:
  "fst (collect_hosts example_ext example_net mixed_plugin) =
     [''1.2.3.4'' @ [TAB] @ ''foo.bar'', ''5.6.7.8'' @ [TAB] @ ''x.example.com'']"
proof -
  have d: "domain_lines example_ext example_net ''x.example.com'' =
      [''5.6.7.8'' @ [TAB] @ ''x.example.com'']"
    by (simp add: domain_lines_def resolved_example)
  have n: "domain_lines example_ext example_net ''down.example.net'' = []"
    by (simp add: domain_lines_def resolved_down)
  have b: "bulk example_net = Inr (hosts_page (''1.2.3.4'' @ [TAB] @ ''foo.bar''))"
    by (simp add: example_net_def)
  have l: "domain_list mixed_plugin = [''down.example.net'', ''x.example.com'']"
    by (simp add: mixed_plugin_def)
  show ?thesis by (simp add: collect_hosts_eq d n b l hosts_page_def)
qed

lemma read_example: "read_system_hosts example_ext example_fs = Inr [''127.0.0.1 localhost\<newline>'']"
  by (simp add: example_ext_def current_lines_def open_r_def example_fs_def py_readlines_def)

lemma collect_bulk_down:
  "fst (collect_hosts example_ext bulk_down_net mixed_plugin) =
     [''5.6.7.8'' @ [TAB] @ ''x.example.com'']"
proof -
  have x: "resolved bulk_down_net ''x.example.com'' = Some [JStr ''5.6.7.8'']"
    by (simp add: resolved_def bulk_down_net_def ip_addresses_a_records) (simp add: a_records_def)
  have n: "resolved bulk_down_net ''down.example.net'' = None"
    by (simp add: resolved_def bulk_down_net_def)
  have b: "bulk bulk_down_net = Inl RequestException"
    by (simp add: bulk_down_net_def)
  have l: "domain_list mixed_plugin = [''down.example.net'', ''x.example.com'']"
    by (simp add: mixed_plugin_def)
  show ?thesis by (simp add: collect_hosts_eq domain_lines_def x n b l)
qed

text \<open>
  C5's theorem in the end-to-end scenario, with a second domain whose lookup fails:
  two lines between the markers, after the old text, and none for the failed domain;
  and with the bulk request raising: the one line of the resolved domain.
\<close>

theorem hosts_content_order_witness:
  "bulk bulk_down_net = Inl RequestException \<and>
   fst (collect_hosts example_ext bulk_down_net mixed_plugin) =
     [''5.6.7.8'' @ [TAB] @ ''x.example.com''] \<and>
   bulk example_net = Inr (hosts_page (''1.2.3.4'' @ [TAB] @ ''foo.bar'')) \<and>
   status_code (hosts_page (''1.2.3.4'' @ [TAB] @ ''foo.bar'')) = 200 \<and>
   read_system_hosts example_ext example_fs = Inr [''127.0.0.1 localhost\<newline>''] \<and>
   writable example_fs \<and>
   domain_list mixed_plugin = [''down.example.net'', ''x.example.com''] \<and>
   resolved example_net ''down.example.net'' = None \<and>
   domain_lines example_ext example_net ''down.example.net'' = [] \<and>
   fst (collect_hosts example_ext example_net mixed_plugin) =
     [''1.2.3.4'' @ [TAB] @ ''foo.bar'', ''5.6.7.8'' @ [TAB] @ ''x.example.com''] \<and>
   content (snd (update_hosts example_ext example_net mixed_plugin example_fs)) =
     Some (''127.0.0.1 localhost\<newline># BetterHostsPlugin\<newline>1.2.3.4'' @ [TAB] @ ''foo.bar\<newline>5.6.7.8''
           @ [TAB] @ ''x.example.com\<newline># BetterHostsPlugin End\<newline>'')"
proof -
  have w: "writable example_fs" by (simp add: example_fs_def)
  have t: "file_text example_fs = ''127.0.0.1 localhost\<newline>''"
    by (simp add: file_text_def example_fs_def)
  have l: "domain_list mixed_plugin = [''down.example.net'', ''x.example.com'']"
    by (simp add: mixed_plugin_def)
  have tabs: "\<forall>d' \<in> set (domain_list mixed_plugin). TAB \<notin> set d'"
    by (simp add: l)
  have m: "''down.example.net'' \<in> set (domain_list mixed_plugin)"
    by (simp add: l)
  have b: "bulk example_net = Inr (hosts_page (''1.2.3.4'' @ [TAB] @ ''foo.bar''))"
    by (simp add: example_net_def)
  have s: "status_code (hosts_page (''1.2.3.4'' @ [TAB] @ ''foo.bar'')) = 200"
    by (simp add: hosts_page_def)
  have bd: "bulk bulk_down_net = Inl RequestException"
    by (simp add: bulk_down_net_def)
  from hosts_content_order [where ext = example_ext and net = example_net and self = mixed_plugin
      and d = "''down.example.net''" and fs = example_fs
      and system_hosts = "[''127.0.0.1 localhost\<newline>'']"
      and r = "hosts_page (''1.2.3.4'' @ [TAB] @ ''foo.bar'')"]
    hosts_content_order [where ext = example_ext and net = bulk_down_net and self = mixed_plugin
      and e = RequestException]
    read_example w collect_mixed collect_bulk_down t l tabs m resolved_down b s bd
  show ?thesis by (simp add: start_marker_def end_marker_def)
qed

text \<open>
  Claim C5 as stated fails: the lookup of \<^verbatim>\<open>x.example.com\<close> fails, and the domain
  is in the block all the same, in the line of the bulk text that names it.
\<close>

theorem failed_domain_named_by_bulk:
  "bulk naming_net = Inr (hosts_page (''9.9.9.9'' @ [TAB] @ ''x.example.com'')) \<and>
   status_code (hosts_page (''9.9.9.9'' @ [TAB] @ ''x.example.com'')) = 200 \<and>
   domain_list example_plugin = [''x.example.com''] \<and>
   resolved naming_net ''x.example.com'' = None \<and>
   fst (collect_hosts example_ext naming_net example_plugin) =
     [''9.9.9.9'' @ [TAB] @ ''x.example.com''] \<and>
   content (snd (update_hosts example_ext naming_net example_plugin example_fs)) =
     Some (''127.0.0.1 localhost\<newline># BetterHostsPlugin\<newline>9.9.9.9'' @ [TAB] @
           ''x.example.com\<newline># BetterHostsPlugin End\<newline>'')"
  by code_simp

text \<open>
  The guard of line 103 in the case it covers: when the bulk request raises and every
  domain of the list is either not resolved or resolved to no address, the content is
  empty and \<^verbatim>\<open>update_hosts\<close> leaves the hosts file as it was.
\<close>

lemma no_write_when_bulk_raises:
  assumes "bulk net = Inl e"
    and "\<forall>d \<in> set (domain_list self). resolved net d = None \<or> resolved net d = Some []"
  shows "snd (update_hosts ext net self fs) = fs"
proof -
  from assms(2) have "\<forall>d \<in> set (domain_list self). domain_lines ext net d = []"
    by (auto simp: domain_lines_def)
  then have "concat (map (domain_lines ext net) (domain_list self)) = []"
    by simp
  with assms(1) have "fst (collect_hosts ext net self) = []"
    by (simp add: collect_hosts_eq)
  then show ?thesis
    by (simp add: update_hosts_def split: sum.splits)
qed

text \<open>
  Claim C6 at its failing input. The bulk request is answered with status 500 and an
  empty body and every lookup fails, so nothing was obtained; the content is the one
  empty string, which line 103 takes for content, and an empty block is written.
\<close>

theorem failed_bulk_reply_writes_empty_block:
  "bulk error_page_net =
     Inr \<lparr>status_code = 500, response_text = [], json_body = Inl JSONDecodeError\<rparr> \<and>
   resolved error_page_net d = None \<and>
   fst (collect_hosts example_ext error_page_net new_plugin) = [[]] \<and>
   update_hosts example_ext error_page_net new_plugin example_fs =
     (None, example_fs\<lparr>content :=
        Some ''127.0.0.1 localhost\<newline># BetterHostsPlugin\<newline>\<newline># BetterHostsPlugin End\<newline>''\<rparr>)"
proof (intro conjI)
  show "bulk error_page_net =
     Inr \<lparr>status_code = 500, response_text = [], json_body = Inl JSONDecodeError\<rparr>"
    by (simp add: error_page_net_def)
next
  show "resolved error_page_net d = None"
    by (simp add: resolved_def error_page_net_def)
next
  show "fst (collect_hosts example_ext error_page_net new_plugin) = [[]]"
    by code_simp
next
  show "update_hosts example_ext error_page_net new_plugin example_fs =
     (None, example_fs\<lparr>content :=
        Some ''127.0.0.1 localhost\<newline># BetterHostsPlugin\<newline>\<newline># BetterHostsPlugin End\<newline>''\<rparr>)"
    by code_simp
qed

section \<open>The configured domain list\<close>

lemma split_ws_words:
  "\<forall>ch \<in> set w. \<not> py_isspace ch \<Longrightarrow> d \<in> set (split_ws w s) \<Longrightarrow>
   d \<noteq> [] \<and> (\<forall>ch \<in> set d. \<not> py_isspace ch)"
proof (induction s arbitrary: w)
  case Nil
  then show ?case by (auto split: if_splits)
next
  case (Cons c cs)
  show ?case
  proof (cases "py_isspace c")
    case True
    with Cons.prems have "d = w \<and> w \<noteq> [] \<or> d \<in> set (split_ws [] cs)"
      by (auto split: if_splits)
    then show ?thesis
    proof
      assume "d = w \<and> w \<noteq> []"
      with Cons.prems show ?thesis by simp
    next
      assume "d \<in> set (split_ws [] cs)"
      then show ?thesis using Cons.IH [of "[]"] by simp
    qed
  next
    case False
    with Cons.prems have "d \<in> set (split_ws (w @ [c]) cs)" by simp
    moreover from False Cons.prems have "\<forall>ch \<in> set (w @ [c]). \<not> py_isspace ch" by simp
    ultimately show ?thesis using Cons.IH [of "w @ [c]"] by blast
  qed
qed

lemma py_split_words:
  "d \<in> set (py_split s) \<Longrightarrow> d \<noteq> [] \<and> (\<forall>ch \<in> set d. \<not> py_isspace ch)"
  unfolding py_split_def using split_ws_words [of "[]" d s] by simp

lemma init_plugin_domain_list:
  assumes "c \<noteq> []"
    and "new_domain_list (config_get c ''domain_list'' (PStr [])) (domain_list self) = Inr dl"
  shows "domain_list (fst (snd (init_plugin ext net (Some c) self fs))) = dl"
proof -
  let ?self2 = "self\<lparr>enabled := config_get c ''enabled'' (PBool False), domain_list := dl,
     schedule_interval := config_get c ''schedule_interval'' (PStr ''1hour'')\<rparr>"
  have d: "domain_list (snd (setup_scheduler ?self2)) = dl"
    by (simp add: setup_scheduler_domain_list)
  obtain r fs' where u: "update_hosts ext net ?self2 fs = (r, fs')"
    by (cases "update_hosts ext net ?self2 fs")
  obtain r3 self3 where s: "setup_scheduler ?self2 = (r3, self3)"
    by (cases "setup_scheduler ?self2")
  with d have "domain_list self3 = dl" by simp
  with assms u s show ?thesis
    by (cases r) (simp_all add: init_plugin_def Let_def)
qed

text \<open>
  Claim C10. For a configuration that is not empty: when it has no
  \<^verbatim>\<open>domain_list\<close> or an empty one, \<^verbatim>\<open>init_plugin\<close> leaves the domain list as it
  is, which on a new plugin is the built-in default of line 24; when the text is not
  empty the domain list becomes its whitespace-separated words, each of them non-empty
  and free of whitespace.
\<close>

theorem configured_domain_list:
  assumes "c \<noteq> []"
  shows "(map_of c ''domain_list'' = None \<or> map_of c ''domain_list'' = Some (PStr []) \<longrightarrow>
            domain_list (fst (snd (init_plugin ext net (Some c) self fs))) = domain_list self) \<and>
         (map_of c ''domain_list'' = Some (PStr s) \<and> s \<noteq> [] \<longrightarrow>
            domain_list (fst (snd (init_plugin ext net (Some c) self fs))) = py_split s \<and>
            (\<forall>d \<in> set (py_split s). d \<noteq> [] \<and> (\<forall>ch \<in> set d. \<not> py_isspace ch))) \<and>
         domain_list new_plugin = [''api.themoviedb.org'', ''image.tmdb.org'']"
proof (intro conjI impI)
  assume "map_of c ''domain_list'' = None \<or> map_of c ''domain_list'' = Some (PStr [])"
  then have "new_domain_list (config_get c ''domain_list'' (PStr [])) (domain_list self) =
      Inr (domain_list self)"
    by (auto simp: new_domain_list_def config_get_def)
  with assms show "domain_list (fst (snd (init_plugin ext net (Some c) self fs))) = domain_list self"
    by (rule init_plugin_domain_list)
next
  assume "map_of c ''domain_list'' = Some (PStr s) \<and> s \<noteq> []"
  then have "new_domain_list (config_get c ''domain_list'' (PStr [])) (domain_list self) =
      Inr (py_split s)"
    by (simp add: new_domain_list_def config_get_def)
  with assms show "domain_list (fst (snd (init_plugin ext net (Some c) self fs))) = py_split s"
    by (rule init_plugin_domain_list)
next
  show "\<forall>d \<in> set (py_split s). d \<noteq> [] \<and> (\<forall>ch \<in> set d. \<not> py_isspace ch)"
    using py_split_words by blast
next
  show "domain_list new_plugin = [''api.themoviedb.org'', ''image.tmdb.org'']"
    by (simp add: new_plugin_def default_domain_list_def)
qed

text \<open>C10 on a new plugin, without a domain list and with two domains between whitespace.\<close>

theorem configured_domain_list_witness:
  "bare_config \<noteq> [] \<and> map_of bare_config ''domain_list'' = None \<and>
   domain_list (fst (snd (init_plugin example_ext example_net (Some bare_config) new_plugin example_fs)))
     = [''api.themoviedb.org'', ''image.tmdb.org''] \<and>
   spaced_config \<noteq> [] \<and>
   map_of spaced_config ''domain_list'' =
     Some (PStr ('' a.example.com'' @ [LF, TAB] @ ''b.example.org '')) \<and>
   domain_list (fst (snd (init_plugin example_ext example_net (Some spaced_config) new_plugin example_fs)))
     = [''a.example.com'', ''b.example.org'']"
proof -
  let ?s = "'' a.example.com'' @ [LF, TAB] @ ''b.example.org ''"
  have b: "bare_config \<noteq> []" "map_of bare_config ''domain_list'' = None"
    by (simp_all add: bare_config_def)
  have c: "spaced_config \<noteq> []" "map_of spaced_config ''domain_list'' = Some (PStr ?s)" "?s \<noteq> []"
    by (simp_all add: spaced_config_def)
  have s: "py_split ?s = [''a.example.com'', ''b.example.org'']"
    by (simp add: py_split_def py_isspace_def)
  from configured_domain_list [OF b(1), where ext = example_ext and net = example_net
        and self = new_plugin and fs = example_fs]
    configured_domain_list [OF c(1), where s = ?s and ext = example_ext and net = example_net
        and self = new_plugin and fs = example_fs]
    b c s
  show ?thesis by simp
qed

section \<open>The code at the failing inputs\<close>

lemma block_text_example:
  "block_text (fst (collect_hosts example_ext example_net example_plugin)) = example_block"
  by (simp add: collect_example block_text_def example_block_def start_marker_def end_marker_def)

lemma update_example:
  assumes "content fs = Some t" and "readable fs" and "writable fs"
  shows "update_hosts example_ext example_net example_plugin fs =
           (None, fs\<lparr>content := Some (t @ example_block)\<rparr>)"
proof -
  from assms have r: "read_system_hosts example_ext fs = Inr (py_readlines t)"
    by (simp add: example_ext_def current_lines_def open_r_def)
  have n: "fst (collect_hosts example_ext example_net example_plugin) \<noteq> []"
    by (simp add: collect_example)
  from assms have t: "file_text fs = t" by (simp add: file_text_def)
  from update_hosts_writes [OF r assms(3) n] show ?thesis
    by (simp add: block_text_example t)
qed

text \<open>
  Claim C1 at its failing input. With the same request results, the first update cycle
  appends the block to the file and the second appends the same block once more: the
  file then holds two owned blocks.
\<close>

theorem update_hosts_twice_appends_twice:
  "snd (update_hosts example_ext example_net example_plugin example_fs) =
     example_fs\<lparr>content := Some (''127.0.0.1 localhost\<newline>'' @ example_block)\<rparr> \<and>
   snd (update_hosts example_ext example_net example_plugin
         (snd (update_hosts example_ext example_net example_plugin example_fs))) =
     example_fs\<lparr>content := Some (''127.0.0.1 localhost\<newline>'' @ example_block @ example_block)\<rparr>"
proof -
  have c: "content example_fs = Some ''127.0.0.1 localhost\<newline>''" "readable example_fs" "writable example_fs"
    by (simp_all add: example_fs_def)
  let ?fs1 = "example_fs\<lparr>content := Some (''127.0.0.1 localhost\<newline>'' @ example_block)\<rparr>"
  have 1: "update_hosts example_ext example_net example_plugin example_fs = (None, ?fs1)"
    using update_example [OF c] .
  have c1: "content ?fs1 = Some (''127.0.0.1 localhost\<newline>'' @ example_block)" "readable ?fs1" "writable ?fs1"
    using c by simp_all
  have 2: "update_hosts example_ext example_net example_plugin ?fs1 =
      (None, ?fs1\<lparr>content := Some ((''127.0.0.1 localhost\<newline>'' @ example_block) @ example_block)\<rparr>)"
    using update_example [OF c1] .
  from 1 2 show ?thesis by simp
qed

text \<open>
  Claim C2 at its failing input. \<^verbatim>\<open>update_hosts\<close> raises exactly what the read of
  line 78 raises: with no hosts file to read, the error leaves the method.
\<close>

theorem update_hosts_propagates_read_error:
  "fst (update_hosts ext net self fs) =
     (case read_system_hosts ext fs of Inl e \<Rightarrow> Some e | Inr system_hosts \<Rightarrow> None) \<and>
   update_hosts example_ext example_net example_plugin missing_fs =
     (Some FileNotFoundError, missing_fs)"
proof
  show "fst (update_hosts ext net self fs) =
     (case read_system_hosts ext fs of Inl e \<Rightarrow> Some e | Inr system_hosts \<Rightarrow> None)"
    by (simp add: update_hosts_def Let_def split: sum.splits)
next
  have "read_system_hosts example_ext missing_fs = Inl FileNotFoundError"
    by (simp add: example_ext_def current_lines_def open_r_def missing_fs_def)
  then show "update_hosts example_ext example_net example_plugin missing_fs =
     (Some FileNotFoundError, missing_fs)"
    by (simp add: update_hosts_def)
qed

lemma example_config_facts:
  "example_config \<noteq> []"
  "config_get example_config ''enabled'' (PBool False) = PBool True"
  "config_get example_config ''domain_list'' (PStr []) = PStr ''x.example.com''"
  "config_get example_config ''schedule_interval'' (PStr ''1hour'') = PStr ''1hour''"
  by (simp_all add: example_config_def config_get_def)

lemma py_split_example: "py_split ''x.example.com'' = [''x.example.com'']"
  by (simp add: py_split_def py_isspace_def)

lemma init_plugin_example:
  assumes "content fs = Some t" and "readable fs" and "writable fs"
  shows "init_plugin example_ext example_net (Some example_config) self fs =
     (fst (setup_scheduler (self\<lparr>enabled := PBool True, domain_list := [''x.example.com''],
          schedule_interval := PStr ''1hour''\<rparr>)),
      snd (setup_scheduler (self\<lparr>enabled := PBool True, domain_list := [''x.example.com''],
          schedule_interval := PStr ''1hour''\<rparr>)),
      fs\<lparr>content := Some (t @ example_block)\<rparr>)"
proof -
  let ?self2 = "self\<lparr>enabled := PBool True, domain_list := [''x.example.com''],
          schedule_interval := PStr ''1hour''\<rparr>"
  have "collect_hosts example_ext example_net ?self2 = collect_hosts example_ext example_net example_plugin"
    by (rule collect_hosts_domain_list) (simp add: example_plugin_def)
  then have "update_hosts example_ext example_net ?self2 fs =
      update_hosts example_ext example_net example_plugin fs"
    by (auto simp: update_hosts_def Let_def split: sum.splits)
  with update_example [OF assms]
  have u: "update_hosts example_ext example_net ?self2 fs = (None, fs\<lparr>content := Some (t @ example_block)\<rparr>)"
    by simp
  show ?thesis
    by (simp add: init_plugin_def example_config_facts new_domain_list_def py_split_example u
        split: prod.splits)
qed

lemma setup_fresh:
  "setup_scheduler \<lparr>enabled = e, domain_list = d, scheduler = None, schedule_interval = PStr ''1hour''\<rparr> =
     (None, \<lparr>enabled = e, domain_list = d, scheduler = Some \<lparr>running = True, jobs = [Hours 1]\<rparr>,
        schedule_interval = PStr ''1hour''\<rparr>)"
  by (simp add: setup_scheduler_def interval_of_def BackgroundScheduler_def add_job_def start_def)

lemma enable_example:
  "init_plugin example_ext example_net (Some example_config) new_plugin example_fs =
     (None, armed_plugin, example_fs\<lparr>content := Some (''127.0.0.1 localhost\<newline>'' @ example_block)\<rparr>)"
proof -
  have c: "content example_fs = Some ''127.0.0.1 localhost\<newline>''" "readable example_fs" "writable example_fs"
    by (simp_all add: example_fs_def)
  show ?thesis
    by (simp add: init_plugin_example [OF c] new_plugin_def setup_fresh armed_plugin_def)
qed

text \<open>
  Claim C7 at its failing input. Enabling the plugin arms one hourly job. Calling
  \<^verbatim>\<open>setup_scheduler\<close> again with a daily cadence adds a second job beside the
  first, and \<^verbatim>\<open>start()\<close> raises on the running scheduler.
\<close>

theorem setup_scheduler_again_adds_job:
  "init_plugin example_ext example_net (Some example_config) new_plugin example_fs =
     (None, armed_plugin, example_fs\<lparr>content := Some (''127.0.0.1 localhost\<newline>'' @ example_block)\<rparr>) \<and>
   setup_scheduler (armed_plugin\<lparr>schedule_interval := PStr ''1day''\<rparr>) =
     (Some SchedulerAlreadyRunningError,
      armed_plugin\<lparr>schedule_interval := PStr ''1day'',
        scheduler := Some \<lparr>running = True, jobs = [Hours 1, Days 1]\<rparr>\<rparr>)"
proof
  show "init_plugin example_ext example_net (Some example_config) new_plugin example_fs =
     (None, armed_plugin, example_fs\<lparr>content := Some (''127.0.0.1 localhost\<newline>'' @ example_block)\<rparr>)"
    by (rule enable_example)
next
  show "setup_scheduler (armed_plugin\<lparr>schedule_interval := PStr ''1day''\<rparr>) =
     (Some SchedulerAlreadyRunningError,
      armed_plugin\<lparr>schedule_interval := PStr ''1day'',
        scheduler := Some \<lparr>running = True, jobs = [Hours 1, Days 1]\<rparr>\<rparr>)"
    by (simp add: setup_scheduler_def interval_of_def armed_plugin_def add_job_def start_def)
qed

text \<open>
  Claim C8 at its failing input. The first \<^verbatim>\<open>stop_service\<close> on the enabled plugin
  returns and leaves the stopped scheduler in \<^verbatim>\<open>self._scheduler\<close>; the second
  calls \<^verbatim>\<open>shutdown()\<close> on it, which raises.
\<close>

theorem stop_service_twice_raises:
  "fst (stop_service armed_plugin example_fs) = None \<and>
   fst (snd (stop_service armed_plugin example_fs)) =
     armed_plugin\<lparr>scheduler := Some \<lparr>running = False, jobs = []\<rparr>\<rparr> \<and>
   fst (stop_service (fst (snd (stop_service armed_plugin example_fs)))
          (snd (snd (stop_service armed_plugin example_fs)))) = Some SchedulerNotRunningError"
  by (simp add: stop_service_def armed_plugin_def shutdown_def)

text \<open>
  Claim C9 at its failing input. \<^verbatim>\<open>init_plugin\<close> with \<^verbatim>\<open>enabled\<close> false on
  the enabled plugin leaves the scheduler running with its job, where
  \<^verbatim>\<open>stop_service\<close> shuts it down.
\<close>

theorem disable_by_config_keeps_timer:
  "disable_config \<noteq> [] \<and>
   config_get disable_config ''enabled'' (PBool False) = PBool False \<and>
   scheduler (fst (snd (init_plugin example_ext example_net (Some disable_config) armed_plugin example_fs))) =
     Some \<lparr>running = True, jobs = [Hours 1]\<rparr> \<and>
   scheduler (fst (snd (stop_service armed_plugin example_fs))) =
     Some \<lparr>running = False, jobs = []\<rparr>"
  by (simp add: init_plugin_def disable_config_def config_get_def new_domain_list_def
      armed_plugin_def stop_service_def shutdown_def)

text \<open>
  Claim C3 at its failing input. From a file with no owned block, two update cycles
  leave a file with two: the update cycle appends and never strips.
\<close>

theorem two_updates_two_blocks:
  "count_start_markers example_fs = 0 \<and>
   snd (run_ops example_ext [UpdateCycle example_net, UpdateCycle example_net] (example_plugin, example_fs)) =
     example_fs\<lparr>content := Some (''127.0.0.1 localhost\<newline>'' @ example_block @ example_block)\<rparr> \<and>
   count_start_markers
     (snd (run_ops example_ext [UpdateCycle example_net, UpdateCycle example_net] (example_plugin, example_fs))) = 2"
proof -
  have c: "content example_fs = Some ''127.0.0.1 localhost\<newline>''" "readable example_fs" "writable example_fs"
    by (simp_all add: example_fs_def)
  let ?fs1 = "example_fs\<lparr>content := Some (''127.0.0.1 localhost\<newline>'' @ example_block)\<rparr>"
  have c1: "content ?fs1 = Some (''127.0.0.1 localhost\<newline>'' @ example_block)" "readable ?fs1" "writable ?fs1"
    using c by simp_all
  have r: "snd (run_ops example_ext [UpdateCycle example_net, UpdateCycle example_net] (example_plugin, example_fs)) =
     example_fs\<lparr>content := Some (''127.0.0.1 localhost\<newline>'' @ example_block @ example_block)\<rparr>"
    using update_example [OF c] update_example [OF c1] by simp
  have 0: "count_start_markers example_fs = 0"
    by (simp add: count_start_markers_def file_text_def example_fs_def py_readlines_def eval_strip)
  have 2: "count_start_markers
      (example_fs\<lparr>content := Some (''127.0.0.1 localhost\<newline>'' @ example_block @ example_block)\<rparr>) = 2"
    by (simp add: count_start_markers_def file_text_def example_block_def py_readlines_def eval_strip)
  from r 0 2 show ?thesis by simp
qed

text \<open>
  Two more ways a foreign line changes. Appended to a last line without line ending,
  the start marker is no line of its own: it is glued to that line. And
  \<^verbatim>\<open>_clear_system_hosts\<close> writes every line it keeps with the line ending
  \<^verbatim>\<open>\n\<close>, whatever the file had.
\<close>

lemma update_glues_marker_to_last_line:
  "py_readlines (file_text unterminated_fs) = [''127.0.0.1 localhost''] \<and>
   py_readlines (file_text
       (snd (update_hosts example_ext example_net example_plugin unterminated_fs))) =
     [''127.0.0.1 localhost# BetterHostsPlugin\<newline>'', ''1.2.3.4'' @ [TAB] @ ''foo.bar\<newline>'',
      ''5.6.7.8'' @ [TAB] @ ''x.example.com\<newline>'', ''# BetterHostsPlugin End\<newline>'']"
  by code_simp

lemma clear_rewrites_line_endings:
  "content crlf_fs = Some (''10.0.0.1 router'' @ [CR, LF]) \<and>
   content (clear_system_hosts crlf_fs) = Some ''10.0.0.1 router\<newline>''"
  by code_simp

end
